theory Spec2Isabelle
  imports Main "HOL-Library.Word"
begin

section \<open>Rule binding: \<open>MockRule\<close>\<close>

text \<open>
  The class \<open>MockRule\<close> keeps a list \<open>requests\<close> of promises, a counter
  \<open>requestCount\<close> and an optional completion checker. The promises are objects of the
  JavaScript heap, shared between the rule's list and whoever awaits them, so the model
  keeps an explicit store of promise states: a promise is its address in the store.

  The handler and \<open>waitForCompletedRequest\<close> are not part of the sources; what the
  handler does when it is called is an argument of the model. \<open>MockRule.handle\<close> starts
  an \<open>async\<close> function, whose body calls \<open>this.handler.handle(req, res)\<close> at once, before
  anything is pushed. If that call throws, the promise of the \<open>async\<close> function is
  rejected there and then. If it returns, \<open>await\<close> suspends the \<open>async\<close> function,
  whether the handler's promise is still pending or the handler has already finished all
  its work, and the promise of the \<open>async\<close> function is pending when
  \<open>MockRule.handle\<close> returns. It is settled by a later turn of the event loop
  (\<open>settle\<close>): fulfilled with the completed request when the handler's promise and
  \<open>waitForCompletedRequest\<close> both succeed, rejected when either fails.

  \<open>requestCount\<close> is a JavaScript number used as a counter; numbers are exact on the
  integers below \<open>2 ^ 53\<close>, and the model counts in \<open>nat\<close>.
\<close>

text \<open>
  The call \<open>this.handler.handle(req, res)\<close>: it throws, or it returns a promise that is
  still pending (\<open>Returns None\<close>) or that the handler, having finished its work, has
  already fulfilled (\<open>Returns (Some True)\<close>) or rejected (\<open>Returns (Some False)\<close>).
\<close>

datatype handler_call = Throws | Returns "bool option"

fun handlerFinished :: "handler_call \<Rightarrow> bool" where
  "handlerFinished Throws = True"
| "handlerFinished (Returns (Some ok)) = True"
| "handlerFinished (Returns None) = False"

text \<open>
  A pending promise of the \<open>async\<close> function waits for the handler's promise, and keeps
  what is known of it: \<open>Pending (Some ok)\<close> when it had already settled.
\<close>

datatype 'c promise_state = Pending "bool option" | Fulfilled 'c | Rejected

fun isPending :: "'c promise_state \<Rightarrow> bool" where
  "isPending (Pending awaited) = True"
| "isPending (Fulfilled c) = False"
| "isPending Rejected = False"

type_synonym promise = nat

record 'c MockRule =
  requests :: "promise list"
  requestCount :: nat
  completionChecker :: "(nat \<Rightarrow> bool) option"
  promises :: "'c promise_state list"

text \<open>The constructor: \<open>requests = []\<close>, \<open>requestCount = 0\<close>, no promise allocated yet.\<close>

definition newMockRule :: "(nat \<Rightarrow> bool) option \<Rightarrow> 'c MockRule" where
  "newMockRule checker =
     \<lparr>requests = [], requestCount = 0, completionChecker = checker, promises = []\<rparr>"

text \<open>
  \<open>handle(req, res, record)\<close>, given what the handler's call does: the \<open>async\<close>
  function is started, calls the handler and yields the fresh \<open>completedPromise\<close>,
  rejected if the handler threw and pending otherwise; it is pushed on \<open>requests\<close> when
  \<open>record\<close> holds; the counter is incremented; the promise is returned.
\<close>

definition handle :: "bool \<Rightarrow> handler_call \<Rightarrow> 'c MockRule \<Rightarrow> promise \<times> 'c MockRule" where
  "handle record call r =
     (let completedPromise = length (promises r);
          r1 = r\<lparr>promises := promises r
                  @ [case call of Throws \<Rightarrow> Rejected | Returns awaited \<Rightarrow> Pending awaited]\<rparr>;
          r2 = (if record then r1\<lparr>requests := requests r1 @ [completedPromise]\<rparr> else r1);
          r3 = r2\<lparr>requestCount := requestCount r2 + 1\<rparr>
      in (completedPromise, r3))"

text \<open>
  The continuation of the \<open>async\<close> function, run by the event loop once the handler's
  promise has settled: \<open>handlerOk\<close> tells whether \<open>await this.handler.handle(req, res)\<close>
  returned or threw, where that was not known yet when the handler's call returned;
  \<open>completed\<close> is the result of \<open>waitForCompletedRequest(req)\<close> (\<open>None\<close> when it
  rejects). A promise settles once.
\<close>

definition outcome :: "bool \<Rightarrow> 'c option \<Rightarrow> 'c promise_state" where
  "outcome handlerOk completed =
     (if handlerOk then (case completed of Some c \<Rightarrow> Fulfilled c | None \<Rightarrow> Rejected)
      else Rejected)"

definition settle :: "promise \<Rightarrow> bool \<Rightarrow> 'c option \<Rightarrow> 'c MockRule \<Rightarrow> 'c MockRule" where
  "settle p handlerOk completed r =
     (if p < length (promises r) then
        (case promises r ! p of
           Pending awaited \<Rightarrow>
             r\<lparr>promises := (promises r)
                    [p := outcome (case awaited of Some ok \<Rightarrow> ok | None \<Rightarrow> handlerOk) completed]\<rparr>
         | Fulfilled c \<Rightarrow> r
         | Rejected \<Rightarrow> r)
      else r)"

text \<open>
  What happens to a rule over time: calls of \<open>handle\<close>, interleaved in any way with the
  completions of earlier calls.
\<close>

datatype 'c event = Handle bool handler_call | Settle promise bool "'c option"

fun step :: "'c MockRule \<Rightarrow> 'c event \<Rightarrow> 'c MockRule" where
  "step r (Handle record call) = snd (handle record call r)"
| "step r (Settle p handlerOk completed) = settle p handlerOk completed r"

definition run :: "'c MockRule \<Rightarrow> 'c event list \<Rightarrow> 'c MockRule" where
  "run r es = foldl step r es"

fun isHandle :: "'c event \<Rightarrow> bool" where
  "isHandle (Handle record call) = True"
| "isHandle (Settle p handlerOk completed) = False"

text \<open>
  The promises that a run starting with \<open>n\<close> allocated promises pushes on \<open>requests\<close>:
  one per recorded \<open>handle\<close>, in the order of the calls.
\<close>

fun recorded :: "nat \<Rightarrow> 'c event list \<Rightarrow> promise list" where
  "recorded n [] = []"
| "recorded n (Handle record call # es) =
     (if record then n # recorded (Suc n) es else recorded (Suc n) es)"
| "recorded n (Settle p handlerOk completed # es) = recorded n es"

fun isRecorded :: "'c event \<Rightarrow> bool" where
  "isRecorded (Handle record call) = record"
| "isRecorded (Settle p handlerOk completed) = False"

text \<open>
  \<open>isComplete()\<close> returns \<open>boolean | null\<close>. JavaScript tells \<open>null\<close> from
  \<open>undefined\<close>, so the model does too.
\<close>

datatype js_bool_or_null = JSNull | JSUndefined | JSBool bool

definition isComplete :: "'c MockRule \<Rightarrow> js_bool_or_null" where
  "isComplete r =
     (case completionChecker r of
        Some checker \<Rightarrow> JSBool (checker (requestCount r))
      | None \<Rightarrow> JSNull)"


section \<open>Frame pipe: \<open>pipeWebSocket\<close>\<close>

text \<open>
  \<open>pipeWebSocket(inSocket, outSocket)\<close> installs event handlers on \<open>inSocket\<close>. Each
  handler is modelled by the sequence of calls it makes on the two sockets and on the
  console, in order. The sockets belong to the \<open>ws\<close> library; what the library decides
  (whether \<open>outSocket.close(num, reason)\<close> throws) is an argument of the model.
\<close>

text \<open>Close codes are the integers that \<open>ws\<close> passes to the \<open>close\<close> listener.\<close>

definition isValidStatusCode :: "int \<Rightarrow> bool" where
  "isValidStatusCode code \<longleftrightarrow>
     (code \<ge> 1000 \<and> code \<le> 1014 \<and> code \<noteq> 1004 \<and> code \<noteq> 1005 \<and> code \<noteq> 1006)
     \<or> (code \<ge> 3000 \<and> code \<le> 4999)"

text \<open>The options object given to \<open>sender.constructor.frame\<close>.\<close>

record frame_options =
  fin :: bool
  rsv1 :: bool
  opcode :: nat
  mask :: bool
  readOnly :: bool

datatype pipe_call =
    InClose \<comment> \<open>\<open>inSocket.close()\<close>\<close>
  | OutCloseWith int string \<comment> \<open>\<open>outSocket.close(num, reason)\<close>\<close>
  | OutClose \<comment> \<open>\<open>outSocket.close()\<close>\<close>
  | OutSendFrame "nat list" frame_options
      \<comment> \<open>\<open>sender.sendFrame(sender.constructor.frame(buf, options), callback)\<close> on \<open>outSocket._sender\<close>\<close>
  | OutDestroyRaw \<comment> \<open>\<open>outSocket._socket.destroy()\<close>\<close>
  | ConsoleLog
  | ConsoleWarn
  | ConsoleError

datatype js_error = RangeError | TypeError

text \<open>
  \<open>onPipeFailed(op)\<close>, the callback of every forwarded \<open>send\<close>, \<open>ping\<close> and \<open>pong\<close>:
  nothing without an error, otherwise \<open>inSocket\<close> is closed and the error logged.
\<close>

definition onPipeFailed :: "bool \<Rightarrow> pipe_call list" where
  "onPipeFailed err = (if \<not> err then [] else [InClose, ConsoleError])"

text \<open>
  The \<open>close\<close> listener. \<open>closeThrows num reason\<close> tells whether
  \<open>outSocket.close(num, reason)\<close> throws; the \<open>catch\<close> block then warns and closes
  without arguments.
\<close>

definition onClose :: "(int \<Rightarrow> string \<Rightarrow> bool) \<Rightarrow> int \<Rightarrow> string \<Rightarrow> pipe_call list" where
  "onClose closeThrows num reason =
     (if isValidStatusCode num then
        (if closeThrows num reason then [OutCloseWith num reason, ConsoleWarn, OutClose]
         else [OutCloseWith num reason])
      else [OutClose])"



definition startsWith :: "string \<Rightarrow> string \<Rightarrow> bool" where
  "startsWith s p \<longleftrightarrow> take (length p) s = p"

















section \<open>Raw HTTP responses: \<open>rawResponse\<close>, \<open>mirrorRejection\<close>, the reject handler\<close>

definition CRLF :: string where
  "CRLF = [CHR 0x0D, CHR 0x0A]"

text \<open>\<open>Array.prototype.join\<close> on strings.\<close>

fun join :: "string \<Rightarrow> string list \<Rightarrow> string" where
  "join sep [] = []"
| "join sep [x] = x"
| "join sep (x # y # ys) = x @ sep @ join sep (y # ys)"

text \<open>The decimal text of a status code, as the template literal prints an integer.\<close>

fun showNat :: "nat \<Rightarrow> string" where
  "showNat n =
     (if n < 10 then [''0123456789'' ! n]
      else showNat (n div 10) @ [''0123456789'' ! (n mod 10)])"

type_synonym RawHeaders = "(string \<times> string) list"

definition rawResponse :: "nat \<Rightarrow> string \<Rightarrow> RawHeaders \<Rightarrow> string" where
  "rawResponse statusCode statusMessage headers =
     ''HTTP/1.1 '' @ showNat statusCode @ '' '' @ statusMessage @ CRLF
     @ join CRLF (map (\<lambda>(key, value). key @ '': '' @ value) headers)
     @ CRLF @ CRLF"

datatype socket_call = Write string | Destroy | End

text \<open>A header object: each name has a string or an array of strings.\<close>

datatype header_value = Str string | Arr "string list"

text \<open>
  Modelled from the spec: \<open>objectHeadersToRaw\<close> (util/header-utils, not among the
  sources). The spec's reject handler sends "each header" of the configured object "in
  order"; an array value gives one header per element.
\<close>

fun objectHeadersToRaw :: "(string \<times> header_value) list \<Rightarrow> RawHeaders" where
  "objectHeadersToRaw [] = []"
| "objectHeadersToRaw ((key, Str v) # hs) = (key, v) # objectHeadersToRaw hs"
| "objectHeadersToRaw ((key, Arr vs) # hs) = map (\<lambda>v. (key, v)) vs @ objectHeadersToRaw hs"

text \<open>The body of a reject handler is a string or a \<open>Buffer\<close>, or absent.\<close>

datatype body = BodyString string | BodyBuffer string

fun bodyBytes :: "body \<Rightarrow> string" where
  "bodyBytes (BodyString s) = s"
| "bodyBytes (BodyBuffer b) = b"

text \<open>\<open>if (this.body)\<close>: an empty string is falsy, every \<open>Buffer\<close> is truthy.\<close>

fun truthyBody :: "body option \<Rightarrow> bool" where
  "truthyBody None = False"
| "truthyBody (Some (BodyString s)) = (s \<noteq> [])"
| "truthyBody (Some (BodyBuffer b)) = True"

record RejectWebSocketHandler =
  statusCode :: nat
  statusMessage :: string
  headers :: "(string \<times> header_value) list"
  body :: "body option"

definition rejectHandle :: "RejectWebSocketHandler \<Rightarrow> socket_call list" where
  "rejectHandle this =
     [Write (rawResponse (statusCode this) (statusMessage this) (objectHeadersToRaw (headers this)))]
     @ (if truthyBody (body this) then [Write (bodyBytes (the (body this)))] else [])
     @ [Write CRLF, Destroy]"

text \<open>The bytes a sequence of socket calls puts on the wire.\<close>

fun written :: "socket_call list \<Rightarrow> string" where
  "written [] = []"
| "written (Write s # cs) = s @ written cs"
| "written (Destroy # cs) = written cs"
| "written (End # cs) = written cs"

text \<open>
  Modelled from the spec: \<open>pairFlatRawHeaders\<close> (util/header-utils, not among the
  sources) turns Node's flat \<open>rawHeaders\<close> list \<open>[name, value, name, value, ...]\<close> into
  pairs.
\<close>

fun pairFlatRawHeaders :: "string list \<Rightarrow> RawHeaders" where
  "pairFlatRawHeaders (k # v # rest) = (k, v) # pairFlatRawHeaders rest"
| "pairFlatRawHeaders [k] = [(k, ''undefined'')]"
| "pairFlatRawHeaders [] = []"

text \<open>
  The upstream's answer, an \<open>http.IncomingMessage\<close>: \<open>statusCode\<close> and
  \<open>statusMessage\<close> may be missing. \<open>x || d\<close> takes \<open>d\<close> for a falsy \<open>x\<close>: a missing
  value, the number 0, the empty string.
\<close>

record IncomingMessage =
  resStatusCode :: "nat option"
  resStatusMessage :: "string option"
  resRawHeaders :: "string list"

definition orNat :: "nat option \<Rightarrow> nat \<Rightarrow> nat" where
  "orNat x d = (case x of None \<Rightarrow> d | Some n \<Rightarrow> if n = 0 then d else n)"

definition orString :: "string option \<Rightarrow> string \<Rightarrow> string" where
  "orString x d = (case x of None \<Rightarrow> d | Some s \<Rightarrow> if s = [] then d else s)"

text \<open>
  \<open>mirrorRejection(socket, rejectionResponse)\<close>. \<open>socket.writable\<close> is read twice,
  before the head is written and after the body has been read: \<open>writable1\<close> and
  \<open>writable2\<close>. \<open>streamToBuffer\<close> is not among the sources; \<open>bodyRead\<close> is what
  awaiting it gives, the body or the exception it rejects with. The result is the calls
  made on the socket and the exception the function ends with, if any.
\<close>

definition mirrorRejection ::
  "bool \<Rightarrow> bool \<Rightarrow> IncomingMessage \<Rightarrow> 'e + string \<Rightarrow> socket_call list \<times> 'e option" where
  "mirrorRejection writable1 writable2 rejectionResponse bodyRead =
     (if writable1 then
        (let head = Write (rawResponse (orNat (resStatusCode rejectionResponse) 500)
                            (orString (resStatusMessage rejectionResponse) ''Unknown error'')
                            (pairFlatRawHeaders (resRawHeaders rejectionResponse)))
         in case bodyRead of
              Inl e \<Rightarrow> ([head], Some e)
            | Inr bodyBuf \<Rightarrow>
                ([head] @ (if writable2 then [Write bodyBuf] else []) @ [Destroy], None))
      else ([Destroy], None))"


section \<open>Pass-through: \<open>PassThroughWebSocketHandler\<close>\<close>

text \<open>
  The handler computes the upstream URL and the headers and hands them to the \<open>ws\<close>
  client. Node's \<open>url.parse\<close> and \<open>isLocalhostAddress\<close> (util/socket-util) are not
  among the sources: both are arguments of the model, gathered in \<open>Env\<close>. A field of a
  parsed URL is a string or \<open>null\<close> (\<open>None\<close>).
\<close>

record ParsedUrl =
  protocol :: "string option"
  hostname :: "string option"
  port :: "string option"
  path :: "string option"

record Env =
  urlParse :: "string \<Rightarrow> ParsedUrl"
  isLocalhostAddress :: "string option \<Rightarrow> bool"

text \<open>\<open>updateHostHeader?: true | false | string\<close>\<close>

datatype updateHost = Unset | Flag bool | Custom string

record ForwardingOptions =
  targetHost :: string
  updateHostHeader :: updateHost

text \<open>
  The request: its URL, its raw headers (name and value pairs, as received), Node's
  header object \<open>req.headers\<close> with lower-case names, the remote address, and whether
  \<open>isHttp2(req)\<close> holds. The socket: the \<open>__lastHopEncrypted\<close> mark, which may be
  undefined, and \<open>connection.encrypted\<close>.
\<close>

record OngoingRequest =
  url :: string
  rawHeaders :: RawHeaders
  reqHeaders :: "(string \<times> string) list"
  remoteIpAddress :: "string option"
  isHttp2 :: bool

record Socket =
  lastHopEncrypted :: "bool option"
  connectionEncrypted :: bool

text \<open>What \<open>new WebSocket(wsUrl, {headers, ...})\<close> is given.\<close>

record Upstream =
  upstreamUrl :: string
  upstreamHeaders :: "string \<rightharpoonup> header_value"

text \<open>
  JavaScript on strings that may be \<open>null\<close> or \<open>undefined\<close>: truthiness, the text a
  template literal prints for \<open>null\<close>, \<open>toLowerCase\<close> on the ASCII letters of a header
  name, \<open>split\<close> on a character, \<open>replace\<close> of the first occurrence.
\<close>

definition truthy :: "string option \<Rightarrow> bool" where
  "truthy x = (case x of None \<Rightarrow> False | Some s \<Rightarrow> s \<noteq> [])"

definition jsString :: "string option \<Rightarrow> string" where
  "jsString x = (case x of None \<Rightarrow> ''null'' | Some s \<Rightarrow> s)"

definition lowerChar :: "char \<Rightarrow> char" where
  "lowerChar c =
     (case map_of (zip ''ABCDEFGHIJKLMNOPQRSTUVWXYZ'' ''abcdefghijklmnopqrstuvwxyz'') c of
        Some l \<Rightarrow> l | None \<Rightarrow> c)"

definition toLowerCase :: "string \<Rightarrow> string" where
  "toLowerCase s = map lowerChar s"

fun splitOn :: "char \<Rightarrow> string \<Rightarrow> string list" where
  "splitOn sep [] = [[]]"
| "splitOn sep (c # cs) =
     (if c = sep then [] # splitOn sep cs
      else (case splitOn sep cs of [] \<Rightarrow> [[c]] | p # ps \<Rightarrow> (c # p) # ps))"

fun replaceFirst :: "string \<Rightarrow> string \<Rightarrow> string \<Rightarrow> string" where
  "replaceFirst pat rep [] = (if pat = [] then rep else [])"
| "replaceFirst pat rep (c # cs) =
     (if startsWith (c # cs) pat then rep @ drop (length pat) (c # cs)
      else c # replaceFirst pat rep cs)"

text \<open>\<open>port ? ':' + port : ''\<close>\<close>

definition portSuffix :: "string option \<Rightarrow> string" where
  "portSuffix port' = (if truthy port' then '':'' @ the port' else [])"

definition hostHeaderName :: "OngoingRequest \<Rightarrow> string" where
  "hostHeaderName req = (if isHttp2 req then '':authority'' else ''host'')"

text \<open>
  Modelled from the spec: \<open>findRawHeader\<close> (util/header-utils, not among the sources).
  The spec updates "the Host/:authority header": the first raw header whose name is the
  given lower-case name up to case. The source assigns to the pair it gets, which updates
  \<open>rawHeaders\<close> in place, so the model returns the pair's index.
\<close>

fun findRawHeader :: "RawHeaders \<Rightarrow> string \<Rightarrow> nat option" where
  "findRawHeader [] targetKey = None"
| "findRawHeader ((key, value) # hs) targetKey =
     (if toLowerCase key = targetKey then Some 0
      else map_option Suc (findRawHeader hs targetKey))"

text \<open>
  Modelled from the spec: \<open>rawHeadersToObjectPreservingCase\<close> (util/header-utils, not
  among the sources). The spec prepares the outbound headers "from the original request's
  raw headers, preserving case": the object has one property per name as written, and a
  name that comes several times collects its values in order.
\<close>

fun addHeader :: "(string \<rightharpoonup> header_value) \<Rightarrow> string \<times> string \<Rightarrow> (string \<rightharpoonup> header_value)" where
  "addHeader result (key, value) =
     (case result key of
        None \<Rightarrow> result(key \<mapsto> Str value)
      | Some (Str existing) \<Rightarrow> result(key \<mapsto> Arr [existing, value])
      | Some (Arr existing) \<Rightarrow> result(key \<mapsto> Arr (existing @ [value])))"

definition rawHeadersToObjectPreservingCase :: "RawHeaders \<Rightarrow> (string \<rightharpoonup> header_value)" where
  "rawHeadersToObjectPreservingCase hs = foldl addHeader Map.empty hs"

text \<open>lodash's \<open>_.omitBy(object, predicate)\<close>: the properties the predicate rejects.\<close>

definition omitBy :: "('k \<rightharpoonup> 'v) \<Rightarrow> ('v \<Rightarrow> 'k \<Rightarrow> bool) \<Rightarrow> ('k \<rightharpoonup> 'v)" where
  "omitBy object predicate =
     (\<lambda>k. case object k of None \<Rightarrow> None | Some v \<Rightarrow> if predicate v k then None else Some v)"

text \<open>The predicate of \<open>connectUpstream\<close>.\<close>

definition omitted :: "string \<Rightarrow> bool" where
  "omitted headerName \<longleftrightarrow>
     startsWith (toLowerCase headerName) ''sec-websocket''
     \<or> toLowerCase headerName = ''connection''
     \<or> toLowerCase headerName = ''upgrade''"

text \<open>
  \<open>connectUpstream\<close>, as far as the URL and the headers go: the agent, the TLS options
  and the event listeners are left out.
\<close>

definition connectUpstream :: "string \<Rightarrow> RawHeaders \<Rightarrow> Upstream" where
  "connectUpstream wsUrl rawHeaders' =
     (let headers' = rawHeadersToObjectPreservingCase rawHeaders'
      in \<lparr>upstreamUrl = wsUrl,
          upstreamHeaders = omitBy headers' (\<lambda>v headerName. omitted headerName)\<rparr>)"

text \<open>
  The first lines of \<open>handle\<close>: the hostname after the substitution of the remote address
  for a loopback hostname.
\<close>

definition localhostRewrite :: "Env \<Rightarrow> OngoingRequest \<Rightarrow> string option" where
  "localhostRewrite env req =
     (let hostname' = hostname (urlParse env (url req)) in
      if isLocalhostAddress env hostname' \<and> truthy (remoteIpAddress req)
         \<and> \<not> isLocalhostAddress env (remoteIpAddress req)
      then remoteIpAddress req
      else hostname')"

text \<open>
  The forwarding branch: protocol, hostname and port of the target. A \<open>targetHost\<close>
  without \<open>/\<close> is split at its colons and gives hostname and port; otherwise it is
  parsed as a URL.
\<close>

definition forwardTarget ::
  "Env \<Rightarrow> ForwardingOptions \<Rightarrow> OngoingRequest \<Rightarrow> string option \<times> string option \<times> string option" where
  "forwardTarget env fw req =
     (if CHR ''/'' \<notin> set (targetHost fw) then
        (let parts = splitOn CHR '':'' (targetHost fw)
         in (protocol (urlParse env (url req)),
             Some (hd parts),
             if length parts > 1 then Some (parts ! 1) else None))
      else
        (let t = urlParse env (targetHost fw)
         in (protocol t, hostname t, port t)))"

text \<open>
  The host header of the forwarding branch: found or inserted in front, then set
  according to \<open>updateHostHeader\<close>. A \<open>null\<close> hostname is written as the text a template
  literal gives it.
\<close>

definition updateHostHeaderIn ::
  "updateHost \<Rightarrow> string \<Rightarrow> string option \<Rightarrow> string option \<Rightarrow> RawHeaders \<Rightarrow> RawHeaders" where
  "updateHostHeaderIn update name hostname' port' hs =
     (let (hs1, i) = (case findRawHeader hs name of
                        Some i \<Rightarrow> (hs, i)
                      | None \<Rightarrow> ((name, jsString hostname') # hs, 0))
      in if update = Unset \<or> update = Flag True
         then hs1[i := (fst (hs1 ! i), jsString hostname' @ portSuffix port')]
         else (case update of
                 Custom s \<Rightarrow> if s \<noteq> [] then hs1[i := (fst (hs1 ! i), s)] else hs1
               | _ \<Rightarrow> hs1))"

text \<open>
  \<open>handle\<close> of the pass-through handler. The result is the request, whose raw headers
  the forwarding branch updates in place, and what the upstream client is given; or the
  \<open>TypeError\<close> of \<open>hostHeader!.split\<close> and \<open>protocol!.replace\<close> on a missing value.
\<close>

definition passThroughHandle ::
  "Env \<Rightarrow> ForwardingOptions option \<Rightarrow> OngoingRequest \<Rightarrow> Socket
     \<Rightarrow> js_error + (OngoingRequest \<times> Upstream)" where
  "passThroughHandle env forwarding req socket =
     (let parsed = urlParse env (url req);
          hostname1 = localhostRewrite env req
      in case forwarding of
           Some fw \<Rightarrow>
             (let (protocol2, hostname2, port2) = forwardTarget env fw req;
                  wsUrl = jsString protocol2 @ ''//'' @ jsString hostname2 @ portSuffix port2
                            @ jsString (path parsed);
                  rawHeaders2 = updateHostHeaderIn (updateHostHeader fw) (hostHeaderName req)
                                  hostname2 port2 (rawHeaders req)
              in Inr (req\<lparr>rawHeaders := rawHeaders2\<rparr>, connectUpstream wsUrl rawHeaders2))
         | None \<Rightarrow>
             if \<not> truthy hostname1 then
               (case map_of (reqHeaders req) (hostHeaderName req) of
                  None \<Rightarrow> Inl TypeError
                | Some hostHeader \<Rightarrow>
                    (let parts = splitOn CHR '':'' hostHeader;
                         hostname2 = hd parts;
                         port2 = (if length parts > 1 then Some (parts ! 1) else None);
                         protocol2 = (case lastHopEncrypted socket of
                                        Some e \<Rightarrow> if e then ''wss'' else ''ws''
                                      | None \<Rightarrow> if connectionEncrypted socket then ''wss'' else ''ws'');
                         wsUrl = protocol2 @ ''://'' @ hostname2 @ portSuffix port2
                                   @ jsString (path parsed)
                     in Inr (req, connectUpstream wsUrl (rawHeaders req))))
             else
               (case protocol parsed of
                  None \<Rightarrow> Inl TypeError
                | Some protocol1 \<Rightarrow>
                    (let wsUrl = replaceFirst ''http'' ''ws'' protocol1 @ ''//'' @ jsString hostname1
                                   @ portSuffix (port parsed) @ jsString (path parsed)
                     in Inr (req, connectUpstream wsUrl (rawHeaders req)))))"


text \<open>
  The value of the header that \<open>findRawHeader\<close> finds: what a reader of the raw headers
  sees as the Host (or \<open>:authority\<close>) header.
\<close>

definition rawHeaderValue :: "RawHeaders \<Rightarrow> string \<Rightarrow> string option" where
  "rawHeaderValue hs name = map_option (\<lambda>i. snd (hs ! i)) (findRawHeader hs name)"

text \<open>
  An environment and a request for the scenarios of the spec: \<open>url.parse\<close> on the URLs
  that occur there, the loopback names, a client at 10.0.0.5 asking for
  \<open>ws://localhost/x\<close>, and a client asking for \<open>ws://client.local/chat?x=1\<close>.
\<close>

definition scenarioEnv :: Env where
  "scenarioEnv =
     \<lparr>urlParse = (\<lambda>u.
        if u = ''ws://localhost/x'' then
          \<lparr>protocol = Some ''ws:'', hostname = Some ''localhost'', port = None, path = Some ''/x''\<rparr>
        else if u = ''ws://client.local/chat?x=1'' then
          \<lparr>protocol = Some ''ws:'', hostname = Some ''client.local'', port = None,
             path = Some ''/chat?x=1''\<rparr>
        else \<lparr>protocol = None, hostname = None, port = None, path = Some u\<rparr>),
      isLocalhostAddress = (\<lambda>h. h = Some ''localhost'' \<or> h = Some ''127.0.0.1'' \<or> h = Some ''::1'')\<rparr>"

definition localhostRequest :: OngoingRequest where
  "localhostRequest =
     \<lparr>url = ''ws://localhost/x'',
      rawHeaders = [(''Host'', ''localhost''), (''Upgrade'', ''websocket''),
                    (''Connection'', ''Upgrade''), (''Sec-WebSocket-Key'', ''abc''),
                    (''X-Trace'', ''1''), (''X-Trace'', ''2'')],
      reqHeaders = [(''host'', ''localhost''), (''upgrade'', ''websocket'')],
      remoteIpAddress = Some ''10.0.0.5'',
      isHttp2 = False\<rparr>"

definition chatRequest :: OngoingRequest where
  "chatRequest =
     \<lparr>url = ''ws://client.local/chat?x=1'',
      rawHeaders = [(''Upgrade'', ''websocket''), (''Host'', ''client.local'')],
      reqHeaders = [(''upgrade'', ''websocket''), (''host'', ''client.local'')],
      remoteIpAddress = None,
      isHttp2 = False\<rparr>"

definition plainSocket :: Socket where
  "plainSocket = \<lparr>lastHopEncrypted = None, connectionEncrypted = False\<rparr>"

section \<open>Properties of the rule binding\<close>

declare showNat.simps [simp del]

lemma requestCount_step:
  "requestCount (step r e) = requestCount r + (if isHandle e then 1 else 0)"
  by (cases e) (simp_all add: handle_def settle_def Let_def split: promise_state.splits)

lemma requestCount_run:
  "requestCount (run r es) = requestCount r + length (filter isHandle es)"
  unfolding run_def by (induction es arbitrary: r) (simp_all add: requestCount_step)

lemma completionChecker_step: "completionChecker (step r e) = completionChecker r"
  by (cases e) (simp_all add: handle_def settle_def Let_def split: promise_state.splits)

lemma completionChecker_run: "completionChecker (run r es) = completionChecker r"
  unfolding run_def by (induction es arbitrary: r) (simp_all add: completionChecker_step)

lemma requests_run: "requests (run r es) = requests r @ recorded (length (promises r)) es"
  unfolding run_def
proof (induction es arbitrary: r)
  case Nil
  show ?case by simp
next
  case (Cons e es)
  show ?case
    by (cases e) (simp_all add: Cons.IH handle_def settle_def Let_def split: promise_state.splits)
qed

lemma recorded_lower: "p \<in> set (recorded n es) \<Longrightarrow> n \<le> p"
proof (induction n es rule: recorded.induct)
  case (2 n b c es)
  then show ?case by (fastforce split: if_splits)
qed simp_all

lemma distinct_recorded: "distinct (recorded n es)"
proof (induction n es rule: recorded.induct)
  case (2 n b c es)
  then show ?case using recorded_lower [of n "Suc n" es] by auto
qed simp_all

lemma length_recorded: "length (recorded n es) = length (filter isRecorded es)"
  by (induction n es rule: recorded.induct) simp_all

lemma handle_new_promise:
  "promises (snd (handle b call r)) ! fst (handle b call r)
     = (case call of Throws \<Rightarrow> Rejected | Returns awaited \<Rightarrow> Pending awaited)"
  by (simp add: handle_def Let_def)

text \<open>
  C2: the counter of a new rule is zero, and after any finite sequence of \<open>handle\<close> calls,
  interleaved in any way with the completions (successful or failed) of earlier calls,
  \<open>requestCount\<close> is the number of \<open>handle\<close> calls, whatever their \<open>record\<close> flags and
  whatever the handler does: each call adds one, a completion adds nothing.
\<close>

theorem requestCount_counts_invocations:
  "requestCount (newMockRule checker) = 0
   \<and> requestCount (run (newMockRule checker) es) = length (filter isHandle es)
   \<and> requestCount (snd (handle record call r)) = requestCount r + 1
   \<and> requestCount (settle p handlerOk completed r) = requestCount r"
  by (simp add: requestCount_run)
     (simp add: newMockRule_def handle_def settle_def Let_def split: promise_state.splits)

theorem requestCount_counts_invocations_witness:
  "requestCount (run (newMockRule None)
     [Handle True (Returns None), Settle 0 False None, Handle False Throws,
      Handle True (Returns (Some True)), Settle 2 True (Some (7::nat))]) = 3"
proof -
  have "requestCount (run (newMockRule None)
          [Handle True (Returns None), Settle 0 False None, Handle False Throws,
           Handle True (Returns (Some True)), Settle 2 True (Some (7::nat))])
        = length (filter isHandle
          [Handle True (Returns None), Settle 0 False None, Handle False Throws,
           Handle True (Returns (Some True)), Settle 2 True (Some (7::nat))])"
    by (rule requestCount_counts_invocations [THEN conjunct2, THEN conjunct1])
  then show ?thesis by simp
qed

text \<open>
  C3, as the claim states it, fails: when the handler's \<open>handle\<close> throws as it is
  called, the handler's work is over before anything is pushed, and the entry that
  \<open>handle\<close> with \<open>record\<close> appends is an already rejected promise, not a pending one.
\<close>

theorem synchronous_throw_counterexample:
  "requests (snd (handle True Throws (newMockRule None :: unit MockRule))) = [0]
   \<and> promises (snd (handle True Throws (newMockRule None :: unit MockRule))) ! 0 = Rejected
   \<and> \<not> isPending (promises (snd (handle True Throws (newMockRule None :: unit MockRule))) ! 0)
   \<and> handlerFinished Throws"
  by (simp add: handle_def newMockRule_def Let_def)

text \<open>
  C3, amended: a \<open>handle\<close> call with \<open>record\<close> set appends exactly one entry to
  \<open>requests\<close>, the promise that the call has just created, during the call itself and
  after the handler has been called. When \<open>handle\<close> returns, that entry is still pending
  if the handler's call returned, whether or not the handler had finished its work by
  then, and it is already rejected if the handler's call threw. A call without \<open>record\<close>
  leaves the list as it is, and so does every later completion. Hence after any sequence
  of calls and completions the list holds the promises of the recorded calls, one each, in
  the order of the calls.
\<close>

theorem records_in_dispatch_order:
  "requests (snd (handle True call r)) = requests r @ [fst (handle True call r)]
   \<and> fst (handle True call r) = length (promises r)
   \<and> promises (snd (handle True call r)) ! fst (handle True call r)
       = (case call of Throws \<Rightarrow> Rejected | Returns awaited \<Rightarrow> Pending awaited)
   \<and> (isPending (promises (snd (handle True call r)) ! fst (handle True call r))
        \<longleftrightarrow> call \<noteq> Throws)
   \<and> requests (snd (handle False call r)) = requests r
   \<and> requests (settle p handlerOk completed r) = requests r
   \<and> requests (run r es) = requests r @ recorded (length (promises r)) es
   \<and> distinct (recorded (length (promises r)) es)
   \<and> length (recorded (length (promises r)) es) = length (filter isRecorded es)"
proof -
  have 1: "requests (snd (handle True call r)) = requests r @ [fst (handle True call r)]"
    by (simp add: handle_def Let_def)
  have 2: "fst (handle True call r) = length (promises r)"
    by (simp add: handle_def Let_def)
  have 3: "promises (snd (handle True call r)) ! fst (handle True call r)
             = (case call of Throws \<Rightarrow> Rejected | Returns awaited \<Rightarrow> Pending awaited)"
    by (rule handle_new_promise)
  have 4: "isPending (promises (snd (handle True call r)) ! fst (handle True call r))
             \<longleftrightarrow> call \<noteq> Throws"
    by (cases call) (simp_all add: handle_new_promise)
  have 5: "requests (snd (handle False call r)) = requests r"
    by (simp add: handle_def Let_def)
  have 6: "requests (settle p handlerOk completed r) = requests r"
    by (simp add: settle_def split: promise_state.splits)
  have 7: "requests (run r es) = requests r @ recorded (length (promises r)) es"
    by (rule requests_run)
  have 8: "distinct (recorded (length (promises r)) es)"
    by (rule distinct_recorded)
  have 9: "length (recorded (length (promises r)) es) = length (filter isRecorded es)"
    by (rule length_recorded)
  show ?thesis
    by (intro conjI) (fact 1, fact 2, fact 3, fact 4, fact 5, fact 6, fact 7, fact 8, fact 9)
qed

theorem records_in_dispatch_order_witness:
  "requests (run (newMockRule None)
     [Handle True (Returns (Some True)), Handle False (Returns None),
      Settle 0 False (Some (7::nat)), Handle True Throws, Handle True (Returns None)]) = [0, 2, 3]
   \<and> promises (run (newMockRule None)
     [Handle True (Returns (Some True)), Handle False (Returns None),
      Settle 0 False (Some (7::nat)), Handle True Throws, Handle True (Returns None)])
     = [Fulfilled 7, Pending None, Rejected, Pending None]
   \<and> isPending (promises (snd (handle True (Returns (Some True))
                   (newMockRule None :: nat MockRule))) ! 0)"
  using records_in_dispatch_order [of "Returns (Some True)" "newMockRule None :: nat MockRule"
      0 True None
      "[Handle True (Returns (Some True)), Handle False (Returns None),
        Settle 0 False (Some (7::nat)), Handle True Throws, Handle True (Returns None)]"]
  by (simp add: newMockRule_def run_def handle_def settle_def outcome_def Let_def)

text \<open>
  C9, as the claim states it, fails: without a completion checker \<open>isComplete()\<close> returns
  \<open>null\<close>, which is not \<open>undefined\<close>.
\<close>

theorem isComplete_undefined_counterexample:
  "isComplete (newMockRule None :: unit MockRule) \<noteq> JSUndefined"
  by (simp add: isComplete_def newMockRule_def)

text \<open>
  C9, amended: \<open>isComplete()\<close> returns \<open>null\<close> when no completion checker is configured,
  and otherwise the checker's answer for the current value of \<open>requestCount\<close>, which
  after a run of the rule is the number of \<open>handle\<close> calls.
\<close>

theorem isComplete_null_or_checker:
  "isComplete r = (case completionChecker r of
                     None \<Rightarrow> JSNull
                   | Some checker \<Rightarrow> JSBool (checker (requestCount r)))
   \<and> isComplete (run (newMockRule None) es) = JSNull
   \<and> isComplete (run (newMockRule (Some checker)) es)
       = JSBool (checker (length (filter isHandle es)))"
  by (simp add: isComplete_def completionChecker_run requestCount_run newMockRule_def
      split: option.splits)

theorem isComplete_null_or_checker_witness:
  "isComplete (run (newMockRule (Some (\<lambda>n. n \<ge> 2)) :: unit MockRule)
       [Handle True (Returns None), Handle False (Returns None)])
     = JSBool True
   \<and> isComplete (run (newMockRule None :: unit MockRule)
       [Handle True (Returns None), Handle False (Returns None)]) = JSNull"
  using isComplete_null_or_checker
          [where es = "[Handle True (Returns None), Handle False (Returns None)] :: unit event list"
             and checker = "\<lambda>n. n \<ge> 2", THEN conjunct2]
  by simp

section \<open>Properties of the frame pipe\<close>

text \<open>
  C1: on a close frame with code \<open>c\<close> and reason \<open>r\<close>, if \<open>c\<close> is in \<open>[1000, 1014]\<close>
  without 1004, 1005 and 1006, or in \<open>[3000, 4999]\<close>, the pipe calls \<open>close(c, r)\<close> on
  the other endpoint, and a bare \<open>close()\<close> after it when that call throws; for every
  other code it calls only the bare \<open>close()\<close>.
\<close>

theorem close_code_forwarding:
  "onClose closeThrows c r =
     (if c \<in> ({1000..1014} - {1004, 1005, 1006}) \<union> {3000..4999}
      then (if closeThrows c r then [OutCloseWith c r, ConsoleWarn, OutClose]
            else [OutCloseWith c r])
      else [OutClose])"
  by (auto simp add: onClose_def isValidStatusCode_def)

theorem close_code_forwarding_witness:
  "onClose (\<lambda>c r. False) 1000 ''bye'' = [OutCloseWith 1000 ''bye'']
   \<and> onClose (\<lambda>c r. length r > 123) 4999 (replicate 124 CHR ''x'')
       = [OutCloseWith 4999 (replicate 124 CHR ''x''), ConsoleWarn, OutClose]
   \<and> onClose (\<lambda>c r. False) 1005 [] = [OutClose]
   \<and> onClose (\<lambda>c r. False) 2999 [] = [OutClose]"
  using close_code_forwarding [of "\<lambda>c r. False" 1000 "''bye''"]
    close_code_forwarding [of "\<lambda>c r. length r > 123" 4999 "replicate 124 CHR ''x''"]
    close_code_forwarding [of "\<lambda>c r. False" 1005 "[]"]
    close_code_forwarding [of "\<lambda>c r. False" 2999 "[]"]
  by simp





























section \<open>Properties of the raw responses\<close>

lemma written_append: "written (xs @ ys) = written xs @ written ys"
  by (induction xs rule: written.induct) simp_all

lemma join_lines:
  "join sep ls = (case ls of [] \<Rightarrow> [] | l # rest \<Rightarrow> l @ concat (map (\<lambda>x. sep @ x) rest))"
  by (induction sep ls rule: join.induct) simp_all

lemma written_body:
  "written (if truthyBody b then [Write (bodyBytes (the b))] else [])
     = (case b of None \<Rightarrow> [] | Some (BodyString s) \<Rightarrow> s | Some (BodyBuffer buf) \<Rightarrow> buf)"
  by (cases b rule: truthyBody.cases) auto

text \<open>
  C8: the bytes that the reject handler writes are \<open>HTTP/1.1\<close>, a space, the status
  code in decimal, a space, the status message, CR LF (the bytes 0x0D 0x0A), the headers
  as \<open>name: value\<close> with CR LF between one and the next, CR LF CR LF, the body as it is
  when there is one, string or buffer, and a last CR LF; its calls on the socket are these
  writes and then \<open>destroy\<close>, nothing else. For status 418 \<open>I'm a teapot\<close>, header
  \<open>X-Foo: bar\<close> and body \<open>nope\<close> the bytes are those of the spec's example; a second
  example has two headers and a buffer as body.
\<close>

theorem reject_response_bytes:
  "written (rejectHandle this) =
      ''HTTP/1.1 '' @ showNat (statusCode this) @ '' '' @ statusMessage this
      @ [CHR 0x0D, CHR 0x0A]
      @ (case map (\<lambda>(name, value). name @ '': '' @ value) (objectHeadersToRaw (headers this)) of
           [] \<Rightarrow> []
         | l # rest \<Rightarrow> l @ concat (map (\<lambda>x. [CHR 0x0D, CHR 0x0A] @ x) rest))
      @ [CHR 0x0D, CHR 0x0A, CHR 0x0D, CHR 0x0A]
      @ (case body this of None \<Rightarrow> [] | Some (BodyString s) \<Rightarrow> s | Some (BodyBuffer buf) \<Rightarrow> buf)
      @ [CHR 0x0D, CHR 0x0A]
   \<and> (\<exists>writes. rejectHandle this = map Write writes @ [Destroy])
   \<and> written (rejectHandle \<lparr>statusCode = 418, statusMessage = ''I'm a teapot'',
         headers = [(''X-Foo'', Str ''bar'')], body = Some (BodyString ''nope'')\<rparr>)
       = ''HTTP/1.1 418 I'm a teapot'' @ [CHR 0x0D, CHR 0x0A] @ ''X-Foo: bar''
         @ [CHR 0x0D, CHR 0x0A, CHR 0x0D, CHR 0x0A] @ ''nope'' @ [CHR 0x0D, CHR 0x0A]
   \<and> rejectHandle \<lparr>statusCode = 503, statusMessage = ''Busy'',
         headers = [(''Retry-After'', Str ''5''), (''X-Foo'', Str ''bar'')],
         body = Some (BodyBuffer [CHR 0x00, CHR 0xFF])\<rparr>
       = [Write (''HTTP/1.1 503 Busy'' @ [CHR 0x0D, CHR 0x0A] @ ''Retry-After: 5''
                 @ [CHR 0x0D, CHR 0x0A] @ ''X-Foo: bar'' @ [CHR 0x0D, CHR 0x0A, CHR 0x0D, CHR 0x0A]),
          Write [CHR 0x00, CHR 0xFF], Write [CHR 0x0D, CHR 0x0A], Destroy]"
proof -
  have 1: "written (rejectHandle this) =
      ''HTTP/1.1 '' @ showNat (statusCode this) @ '' '' @ statusMessage this
      @ [CHR 0x0D, CHR 0x0A]
      @ (case map (\<lambda>(name, value). name @ '': '' @ value) (objectHeadersToRaw (headers this)) of
           [] \<Rightarrow> []
         | l # rest \<Rightarrow> l @ concat (map (\<lambda>x. [CHR 0x0D, CHR 0x0A] @ x) rest))
      @ [CHR 0x0D, CHR 0x0A, CHR 0x0D, CHR 0x0A]
      @ (case body this of None \<Rightarrow> [] | Some (BodyString s) \<Rightarrow> s | Some (BodyBuffer buf) \<Rightarrow> buf)
      @ [CHR 0x0D, CHR 0x0A]"
    using written_body [of "body this"]
    by (simp add: rejectHandle_def rawResponse_def written_append CRLF_def join_lines)
  have 2: "\<exists>writes. rejectHandle this = map Write writes @ [Destroy]"
  proof (cases "truthyBody (body this)")
    case True
    then have "rejectHandle this =
        map Write [rawResponse (statusCode this) (statusMessage this)
                     (objectHeadersToRaw (headers this)),
                   bodyBytes (the (body this)), CRLF] @ [Destroy]"
      by (simp add: rejectHandle_def)
    then show ?thesis by blast
  next
    case False
    then have "rejectHandle this =
        map Write [rawResponse (statusCode this) (statusMessage this)
                     (objectHeadersToRaw (headers this)), CRLF] @ [Destroy]"
      by (simp add: rejectHandle_def)
    then show ?thesis by blast
  qed
  have 3: "written (rejectHandle \<lparr>statusCode = 418, statusMessage = ''I'm a teapot'',
         headers = [(''X-Foo'', Str ''bar'')], body = Some (BodyString ''nope'')\<rparr>)
       = ''HTTP/1.1 418 I'm a teapot'' @ [CHR 0x0D, CHR 0x0A] @ ''X-Foo: bar''
         @ [CHR 0x0D, CHR 0x0A, CHR 0x0D, CHR 0x0A] @ ''nope'' @ [CHR 0x0D, CHR 0x0A]"
    by (simp add: rejectHandle_def rawResponse_def showNat.simps CRLF_def)
  have 4: "rejectHandle \<lparr>statusCode = 503, statusMessage = ''Busy'',
         headers = [(''Retry-After'', Str ''5''), (''X-Foo'', Str ''bar'')],
         body = Some (BodyBuffer [CHR 0x00, CHR 0xFF])\<rparr>
       = [Write (''HTTP/1.1 503 Busy'' @ [CHR 0x0D, CHR 0x0A] @ ''Retry-After: 5''
                 @ [CHR 0x0D, CHR 0x0A] @ ''X-Foo: bar'' @ [CHR 0x0D, CHR 0x0A, CHR 0x0D, CHR 0x0A]),
          Write [CHR 0x00, CHR 0xFF], Write [CHR 0x0D, CHR 0x0A], Destroy]"
    by (simp add: rejectHandle_def rawResponse_def showNat.simps CRLF_def)
  show ?thesis by (intro conjI) (fact 1, fact 2, fact 3, fact 4)
qed

theorem reject_response_bytes_witness:
  "written (rejectHandle \<lparr>statusCode = 403, statusMessage = ''Forbidden'',
         headers = [(''Set-Cookie'', Arr [''a=1'', ''b=2'']), (''X-Foo'', Str ''bar'')],
         body = None\<rparr>)
       = ''HTTP/1.1 403 Forbidden'' @ [CHR 0x0D, CHR 0x0A] @ ''Set-Cookie: a=1''
         @ [CHR 0x0D, CHR 0x0A] @ ''Set-Cookie: b=2'' @ [CHR 0x0D, CHR 0x0A] @ ''X-Foo: bar''
         @ [CHR 0x0D, CHR 0x0A, CHR 0x0D, CHR 0x0A, CHR 0x0D, CHR 0x0A]"
  using reject_response_bytes [of "\<lparr>statusCode = 403, statusMessage = ''Forbidden'',
         headers = [(''Set-Cookie'', Arr [''a=1'', ''b=2'']), (''X-Foo'', Str ''bar'')],
         body = None\<rparr>", THEN conjunct1]
  by (simp add: showNat.simps)

lemma mirror_head:
  "mirrorRejection True writable2 res (Inr bodyBuf) =
     ([Write (''HTTP/1.1 ''
              @ showNat (case resStatusCode res of None \<Rightarrow> 500
                         | Some n \<Rightarrow> if n = 0 then 500 else n)
              @ '' ''
              @ (case resStatusMessage res of None \<Rightarrow> ''Unknown error''
                 | Some m \<Rightarrow> if m = [] then ''Unknown error'' else m)
              @ CRLF
              @ join CRLF (map (\<lambda>(name, value). name @ '': '' @ value)
                             (pairFlatRawHeaders (resRawHeaders res)))
              @ CRLF @ CRLF)]
      @ (if writable2 then [Write bodyBuf] else []) @ [Destroy], None)"
  by (simp add: mirrorRejection_def rawResponse_def orNat_def orString_def)

lemma showNat_500: "showNat 500 = ''500''"
  by (simp add: showNat.simps)

text \<open>
  C10, as the claim states it, fails: on a socket that is not writable when the rejection
  arrives nothing is written, so the socket receives no status line; and when reading the
  upstream body fails, the function ends with that exception before it reaches
  \<open>socket.destroy()\<close>.
\<close>

theorem mirrorRejection_counterexample:
  "written (fst (mirrorRejection False True
       \<lparr>resStatusCode = None, resStatusMessage = None, resRawHeaders = []\<rparr>
       (Inr ''denied'' :: string + string))) = []
   \<and> Destroy \<notin> set (fst (mirrorRejection True True
       \<lparr>resStatusCode = None, resStatusMessage = None, resRawHeaders = []\<rparr>
       (Inl ''aborted'' :: string + string)))"
  by (simp add: mirrorRejection_def)

text \<open>
  C10, amended: when the downstream socket is writable as the rejection arrives and the
  upstream body has been read, the head written has 500 in place of a missing (or zero)
  status code and \<open>Unknown error\<close> in place of a missing (or empty) status message, so
  the status line is \<open>HTTP/1.1 500 Unknown error\<close> when both are missing; the body is
  written only if the socket is still writable after the body has been read; and the
  socket is destroyed last. When the socket is not writable as the rejection arrives,
  nothing is written and the socket is destroyed.
\<close>

theorem mirrorRejection_writes:
  "mirrorRejection True writable2 res (Inr bodyBuf :: 'e + string) =
     ([Write (''HTTP/1.1 ''
              @ showNat (case resStatusCode res of None \<Rightarrow> 500
                         | Some n \<Rightarrow> if n = 0 then 500 else n)
              @ '' ''
              @ (case resStatusMessage res of None \<Rightarrow> ''Unknown error''
                 | Some m \<Rightarrow> if m = [] then ''Unknown error'' else m)
              @ CRLF
              @ join CRLF (map (\<lambda>(name, value). name @ '': '' @ value)
                             (pairFlatRawHeaders (resRawHeaders res)))
              @ CRLF @ CRLF)]
      @ (if writable2 then [Write bodyBuf] else []) @ [Destroy], None)
   \<and> mirrorRejection False writable2 res (bodyRead :: 'e + string) = ([Destroy], None)
   \<and> (resStatusCode res = None \<and> resStatusMessage res = None \<longrightarrow>
        hd (fst (mirrorRejection True writable2 res (Inr bodyBuf :: 'e + string)))
        = Write (''HTTP/1.1 500 Unknown error'' @ CRLF
                 @ join CRLF (map (\<lambda>(name, value). name @ '': '' @ value)
                                (pairFlatRawHeaders (resRawHeaders res)))
                 @ CRLF @ CRLF))"
proof -
  have "mirrorRejection False writable2 res (bodyRead :: 'e + string) = ([Destroy], None)"
    by (simp add: mirrorRejection_def)
  moreover have "resStatusCode res = None \<and> resStatusMessage res = None \<longrightarrow>
        hd (fst (mirrorRejection True writable2 res (Inr bodyBuf :: 'e + string)))
        = Write (''HTTP/1.1 500 Unknown error'' @ CRLF
                 @ join CRLF (map (\<lambda>(name, value). name @ '': '' @ value)
                                (pairFlatRawHeaders (resRawHeaders res)))
                 @ CRLF @ CRLF)"
    by (simp add: mirror_head showNat_500)
  ultimately show ?thesis using mirror_head by blast
qed

theorem mirrorRejection_writes_witness:
  "mirrorRejection True True
       \<lparr>resStatusCode = Some 403, resStatusMessage = Some [],
          resRawHeaders = [''Content-Length'', ''6'']\<rparr> (Inr ''denied'' :: string + string)
     = ([Write (''HTTP/1.1 403 Unknown error'' @ CRLF @ ''Content-Length: 6'' @ CRLF @ CRLF),
         Write ''denied'', Destroy], None)
   \<and> hd (fst (mirrorRejection True False
       \<lparr>resStatusCode = None, resStatusMessage = None, resRawHeaders = []\<rparr>
       (Inr ''denied'' :: string + string)))
     = Write (''HTTP/1.1 500 Unknown error'' @ CRLF @ CRLF @ CRLF)"
  using mirrorRejection_writes [of True
          "\<lparr>resStatusCode = Some 403, resStatusMessage = Some [],
              resRawHeaders = [''Content-Length'', ''6'']\<rparr>"
          "''denied''" "Inr ''denied'' :: string + string", THEN conjunct1]
        mirrorRejection_writes [of False
          "\<lparr>resStatusCode = None, resStatusMessage = None, resRawHeaders = []\<rparr>"
          "''denied''" "Inr ''denied'' :: string + string"]
  by (simp add: showNat.simps)


section \<open>Properties of the pass-through handler\<close>

lemma omitBy_empty: "omitBy Map.empty P = Map.empty"
  by (simp add: omitBy_def)

lemma omitBy_addHeader_keep:
  "\<not> omitted k \<Longrightarrow> omitBy (addHeader m (k, v)) (\<lambda>v h. omitted h) = addHeader (omitBy m (\<lambda>v h. omitted h)) (k, v)"
  by (rule ext) (simp add: omitBy_def split: option.splits header_value.splits)

lemma omitBy_addHeader_drop:
  "omitted k \<Longrightarrow> omitBy (addHeader m (k, v)) (\<lambda>v h. omitted h) = omitBy m (\<lambda>v h. omitted h)"
  by (rule ext) (simp add: omitBy_def split: option.splits header_value.splits)

lemma omitBy_foldl:
  "omitBy (foldl addHeader m hs) (\<lambda>v h. omitted h)
     = foldl addHeader (omitBy m (\<lambda>v h. omitted h)) (filter (\<lambda>(k, v). \<not> omitted k) hs)"
proof (induction hs arbitrary: m)
  case Nil
  show ?case by simp
next
  case (Cons h hs)
  obtain k v where h: "h = (k, v)" by (cases h)
  show ?case
    by (cases "omitted k")
       (simp_all add: h Cons.IH omitBy_addHeader_keep omitBy_addHeader_drop del: addHeader.simps)
qed

lemma connectUpstream_headers:
  "upstreamHeaders (connectUpstream wsUrl hs)
     = rawHeadersToObjectPreservingCase (filter (\<lambda>(k, v). \<not> omitted k) hs)"
  by (simp add: connectUpstream_def rawHeadersToObjectPreservingCase_def omitBy_foldl omitBy_empty)

lemma connectUpstream_headers_at:
  "upstreamHeaders (connectUpstream wsUrl hs) name
     = (if omitted name then None else rawHeadersToObjectPreservingCase hs name)"
  by (simp add: connectUpstream_def omitBy_def split: option.splits)

lemma connectUpstream_url: "upstreamUrl (connectUpstream wsUrl hs) = wsUrl"
  by (simp add: connectUpstream_def)

lemma findRawHeader_Some:
  "findRawHeader hs name = Some i \<Longrightarrow> i < length hs \<and> toLowerCase (fst (hs ! i)) = name"
proof (induction hs arbitrary: i)
  case Nil
  then show ?case by simp
next
  case (Cons h hs)
  obtain k v where h: "h = (k, v)" by (cases h)
  show ?case
  proof (cases "toLowerCase k = name")
    case True
    with Cons.prems h show ?thesis by simp
  next
    case False
    with Cons.prems h obtain j where j: "findRawHeader hs name = Some j" "i = Suc j"
      by auto
    with Cons.IH [of j] show ?thesis by simp
  qed
qed

lemma findRawHeader_names:
  "map fst hs = map fst hs' \<Longrightarrow> findRawHeader hs name = findRawHeader hs' name"
proof (induction hs arbitrary: hs')
  case Nil
  then show ?case by simp
next
  case (Cons h hs)
  then obtain h' hs'' where hs': "hs' = h' # hs''" by (cases hs') auto
  with Cons.prems have "fst h = fst h'" "map fst hs = map fst hs''" by simp_all
  with Cons.IH [of hs''] hs' show ?case
    by (cases h; cases h') simp
qed

lemma rawHeaderValue_update:
  assumes "findRawHeader hs name = Some i"
  shows "rawHeaderValue (hs[i := (fst (hs ! i), v)]) name = Some v"
proof -
  have i: "i < length hs" using assms findRawHeader_Some by blast
  have "map fst (hs[i := (fst (hs ! i), v)]) = map fst hs"
    by (simp add: map_update list_update_same_conv i)
  then have "findRawHeader (hs[i := (fst (hs ! i), v)]) name = Some i"
    using assms findRawHeader_names by metis
  with i show ?thesis by (simp add: rawHeaderValue_def)
qed

lemma toLowerCase_hostHeaderName: "toLowerCase (hostHeaderName req) = hostHeaderName req"
  by (simp add: hostHeaderName_def toLowerCase_def lowerChar_def)

lemma findRawHeader_inserted: "findRawHeader ((hostHeaderName req, v) # hs) (hostHeaderName req) = Some 0"
  by (simp add: toLowerCase_hostHeaderName)

lemma rawHeaderValue_inserted: "rawHeaderValue ((hostHeaderName req, v) # hs) (hostHeaderName req) = Some v"
  by (simp add: rawHeaderValue_def toLowerCase_hostHeaderName)

lemma update_found:
  assumes "findRawHeader hs (hostHeaderName req) = Some i"
  shows "updateHostHeaderIn u (hostHeaderName req) h p hs =
     (if u = Unset \<or> u = Flag True then hs[i := (fst (hs ! i), jsString h @ portSuffix p)]
      else case u of Custom s \<Rightarrow> if s \<noteq> [] then hs[i := (fst (hs ! i), s)] else hs | _ \<Rightarrow> hs)"
  using assms by (simp add: updateHostHeaderIn_def)

lemma update_missing:
  assumes "findRawHeader hs (hostHeaderName req) = None"
  shows "updateHostHeaderIn u (hostHeaderName req) h p hs =
     (if u = Unset \<or> u = Flag True then (hostHeaderName req, jsString h @ portSuffix p) # hs
      else case u of Custom s \<Rightarrow> if s \<noteq> [] then (hostHeaderName req, s) # hs else (hostHeaderName req, jsString h) # hs
                   | _ \<Rightarrow> (hostHeaderName req, jsString h) # hs)"
  using assms by (simp add: updateHostHeaderIn_def split: updateHost.splits)

lemma handle_forwarding:
  assumes "forwardTarget env fw req = (protocol2, hostname2, port2)"
  shows "passThroughHandle env (Some fw) req socket =
     Inr (req\<lparr>rawHeaders := updateHostHeaderIn (updateHostHeader fw) (hostHeaderName req) hostname2 port2 (rawHeaders req)\<rparr>,
          connectUpstream (jsString protocol2 @ ''//'' @ jsString hostname2 @ portSuffix port2 @ jsString (path (urlParse env (url req))))
            (updateHostHeaderIn (updateHostHeader fw) (hostHeaderName req) hostname2 port2 (rawHeaders req)))"
  using assms by (simp add: passThroughHandle_def Let_def)

lemma handle_no_forwarding:
  assumes "passThroughHandle env None req socket = Inr (req', up)"
  shows "req' = req \<and> up = connectUpstream (upstreamUrl up) (rawHeaders req)"
  using assms
  by (auto simp add: passThroughHandle_def Let_def connectUpstream_url split: if_splits option.splits)

lemma forwardTarget_remote: "forwardTarget env fw (req\<lparr>remoteIpAddress := x\<rparr>) = forwardTarget env fw req"
  by (simp add: forwardTarget_def)

lemma update_same: "\<exists>v. hs = hs[i := (fst (hs ! i), v)]"
proof
  show "hs = hs[i := (fst (hs ! i), snd (hs ! i))]" by simp
qed

lemma update_shape_found:
  assumes "findRawHeader hs (hostHeaderName req) = Some i"
  shows "\<exists>v. updateHostHeaderIn u (hostHeaderName req) h p hs = hs[i := (fst (hs ! i), v)]"
proof (cases u)
  case Unset
  then show ?thesis using update_found [OF assms] by auto
next
  case (Flag b)
  then show ?thesis using update_found [OF assms, of u h p] update_same [of hs i] by (cases b) auto
next
  case (Custom s)
  then show ?thesis using update_found [OF assms, of u h p] update_same [of hs i] by (cases "s = []") auto
qed

lemma update_shape_missing:
  assumes "findRawHeader hs (hostHeaderName req) = None"
  shows "\<exists>v. updateHostHeaderIn u (hostHeaderName req) h p hs = (hostHeaderName req, v) # hs"
  using update_missing [OF assms, of u h p] by (auto split: updateHost.splits)


text \<open>
  C5: whenever the pass-through handler reaches the upstream connection, the headers it
  gives the client are those of the request's raw headers, names as written, without the
  headers whose lower-cased name starts with \<open>sec-websocket\<close> or is \<open>connection\<close> or
  \<open>upgrade\<close>; every other header is there with the value it has in the raw headers.
  Those raw headers are the original ones, except that with forwarding the value of the
  first Host (\<open>:authority\<close>) header may have been replaced, or such a header put in
  front when there was none; without forwarding they are the original ones.
\<close>

theorem upstream_headers_stripped:
  assumes "passThroughHandle env forwarding req socket = Inr (req', up)"
  shows "upstreamHeaders up
           = rawHeadersToObjectPreservingCase (filter (\<lambda>(name, value). \<not> omitted name) (rawHeaders req'))
     \<and> (\<forall>name. upstreamHeaders up name
           = (if omitted name then None else rawHeadersToObjectPreservingCase (rawHeaders req') name))
     \<and> (forwarding = None \<longrightarrow> rawHeaders req' = rawHeaders req)
     \<and> (case findRawHeader (rawHeaders req) (hostHeaderName req) of
           Some i \<Rightarrow> \<exists>v. rawHeaders req' = (rawHeaders req)[i := (fst (rawHeaders req ! i), v)]
         | None \<Rightarrow> rawHeaders req' = rawHeaders req
                    \<or> (\<exists>v. rawHeaders req' = (hostHeaderName req, v) # rawHeaders req))"
proof (cases forwarding)
  case None
  with assms have r: "req' = req" and u: "up = connectUpstream (upstreamUrl up) (rawHeaders req)"
    using handle_no_forwarding by blast+
  have "upstreamHeaders up = rawHeadersToObjectPreservingCase (filter (\<lambda>(name, value). \<not> omitted name) (rawHeaders req'))"
    using u r connectUpstream_headers by metis
  moreover have "\<forall>name. upstreamHeaders up name
           = (if omitted name then None else rawHeadersToObjectPreservingCase (rawHeaders req') name)"
    using u r connectUpstream_headers_at by metis
  moreover have "case findRawHeader (rawHeaders req) (hostHeaderName req) of
           Some i \<Rightarrow> \<exists>v. rawHeaders req' = (rawHeaders req)[i := (fst (rawHeaders req ! i), v)]
         | None \<Rightarrow> rawHeaders req' = rawHeaders req
                    \<or> (\<exists>v. rawHeaders req' = (hostHeaderName req, v) # rawHeaders req)"
    using r update_same [of "rawHeaders req"] by (auto split: option.splits)
  ultimately show ?thesis using r by simp
next
  case (Some fw)
  obtain protocol2 hostname2 port2 where t: "forwardTarget env fw req = (protocol2, hostname2, port2)"
    by (cases "forwardTarget env fw req")
  define hs2 where "hs2 = updateHostHeaderIn (updateHostHeader fw) (hostHeaderName req) hostname2 port2 (rawHeaders req)"
  from assms Some handle_forwarding [OF t, of socket]
  have r: "rawHeaders req' = hs2" and u: "up = connectUpstream (upstreamUrl up) hs2"
    by (auto simp add: hs2_def connectUpstream_url)
  have "upstreamHeaders up = rawHeadersToObjectPreservingCase (filter (\<lambda>(name, value). \<not> omitted name) (rawHeaders req'))"
    using u r connectUpstream_headers by metis
  moreover have "\<forall>name. upstreamHeaders up name
           = (if omitted name then None else rawHeadersToObjectPreservingCase (rawHeaders req') name)"
    using u r connectUpstream_headers_at by metis
  moreover have "case findRawHeader (rawHeaders req) (hostHeaderName req) of
           Some i \<Rightarrow> \<exists>v. rawHeaders req' = (rawHeaders req)[i := (fst (rawHeaders req ! i), v)]
         | None \<Rightarrow> rawHeaders req' = rawHeaders req
                    \<or> (\<exists>v. rawHeaders req' = (hostHeaderName req, v) # rawHeaders req)"
    using update_shape_found [of "rawHeaders req" req _ "updateHostHeader fw" hostname2 port2]
      update_shape_missing [of "rawHeaders req" req "updateHostHeader fw" hostname2 port2]
    by (auto simp add: r hs2_def split: option.splits)
  ultimately show ?thesis using Some by simp
qed


theorem upstream_headers_stripped_witness:
  "passThroughHandle scenarioEnv None localhostRequest plainSocket
     = Inr (localhostRequest, connectUpstream ''ws://10.0.0.5/x'' (rawHeaders localhostRequest))
   \<and> upstreamHeaders (connectUpstream ''ws://10.0.0.5/x'' (rawHeaders localhostRequest))
     = rawHeadersToObjectPreservingCase [(''Host'', ''localhost''), (''X-Trace'', ''1''), (''X-Trace'', ''2'')]"
proof -
  have h: "passThroughHandle scenarioEnv None localhostRequest plainSocket
     = Inr (localhostRequest, connectUpstream ''ws://10.0.0.5/x'' (rawHeaders localhostRequest))"
    by (simp add: passThroughHandle_def localhostRewrite_def scenarioEnv_def localhostRequest_def
        truthy_def jsString_def portSuffix_def startsWith_def Let_def)
  have "upstreamHeaders (connectUpstream ''ws://10.0.0.5/x'' (rawHeaders localhostRequest))
     = rawHeadersToObjectPreservingCase (filter (\<lambda>(name, value). \<not> omitted name) (rawHeaders localhostRequest))"
    using upstream_headers_stripped [OF h] by (rule conjunct1)
  then show ?thesis using h
    by (simp add: localhostRequest_def omitted_def toLowerCase_def lowerChar_def startsWith_def)
qed


lemma splitOn_nonempty: "splitOn c s \<noteq> []"
  by (induction s) (auto split: list.splits)

lemma hd_splitOn: "hd (splitOn c s) = takeWhile (\<lambda>x. x \<noteq> c) s"
proof (induction s)
  case Nil
  show ?case by simp
next
  case (Cons x xs)
  then show ?case using splitOn_nonempty [of c xs]
    by (cases "splitOn c xs") auto
qed

lemma length_splitOn: "Suc 0 < length (splitOn c s) \<longleftrightarrow> c \<in> set s"
proof (induction s)
  case Nil
  show ?case by simp
next
  case (Cons x xs)
  then show ?case using splitOn_nonempty [of c xs]
    by (cases "splitOn c xs") auto
qed

lemma second_splitOn:
  "c \<in> set s \<Longrightarrow> splitOn c s ! Suc 0 = takeWhile (\<lambda>x. x \<noteq> c) (tl (dropWhile (\<lambda>x. x \<noteq> c) s))"
proof (induction s)
  case Nil
  then show ?case by simp
next
  case (Cons x xs)
  show ?case
  proof (cases "x = c")
    case True
    then show ?thesis using hd_splitOn [of c xs] splitOn_nonempty [of c xs]
      by (cases "splitOn c xs") auto
  next
    case False
    with Cons.prems have "c \<in> set xs" by simp
    with Cons.IH False show ?thesis using splitOn_nonempty [of c xs]
      by (cases "splitOn c xs") auto
  qed
qed

lemma forwardTarget_bare:
  assumes "CHR ''/'' \<notin> set (targetHost fw)"
  shows "forwardTarget env fw req =
    (protocol (urlParse env (url req)),
     Some (takeWhile (\<lambda>c. c \<noteq> CHR '':'') (targetHost fw)),
     if CHR '':'' \<in> set (targetHost fw)
     then Some (takeWhile (\<lambda>c. c \<noteq> CHR '':'') (tl (dropWhile (\<lambda>c. c \<noteq> CHR '':'') (targetHost fw))))
     else None)"
  using assms by (simp add: forwardTarget_def Let_def hd_splitOn length_splitOn second_splitOn)

lemma forwardTarget_url:
  assumes "CHR ''/'' \<in> set (targetHost fw)"
  shows "forwardTarget env fw req =
    (protocol (urlParse env (targetHost fw)), hostname (urlParse env (targetHost fw)),
     port (urlParse env (targetHost fw)))"
  using assms by (simp add: forwardTarget_def Let_def)

text \<open>
  C6, as the claim states it, fails: with \<open>updateHostHeader\<close> the empty string, which is
  a string, the Host header is not set to that string but left as it was.
\<close>

theorem empty_updateHostHeader_counterexample:
  "map_sum id (rawHeaders \<circ> fst)
     (passThroughHandle scenarioEnv (Some \<lparr>targetHost = ''example.com:8080'', updateHostHeader = Custom []\<rparr>)
        chatRequest plainSocket)
   = Inr [(''Upgrade'', ''websocket''), (''Host'', ''client.local'')]"
  by (simp add: passThroughHandle_def forwardTarget_def updateHostHeaderIn_def scenarioEnv_def chatRequest_def
       hostHeaderName_def toLowerCase_def lowerChar_def Let_def)


text \<open>
  C6, amended: with forwarding configured the handler always reaches the upstream
  connection, with the URL built from the target, and in the raw headers it passes on:
  if \<open>updateHostHeader\<close> is \<open>true\<close> or absent, the Host (\<open>:authority\<close>) header is the
  target's hostname, followed by a colon and the port when the port is present; if it is
  a non-empty string, the header is that string; if it is \<open>false\<close> or the empty string,
  an existing header is left untouched; and when the request has no such header, one is
  inserted in front (with the target's hostname, where it is not set otherwise). Nothing
  else in the raw headers changes. The target is read off \<open>targetHost\<close>: without a
  \<open>/\<close> in it, the hostname is the text before the first colon and the port the text
  between the first and the second colon, if there is a colon, and the protocol stays the
  request's; with a \<open>/\<close> it is parsed as a URL, which gives protocol, hostname and port.
\<close>

theorem forwarding_host_header:
  assumes "forwardTarget env fw req = (protocol2, hostname2, port2)"
  shows "(\<exists>req' up. passThroughHandle env (Some fw) req socket = Inr (req', up)
      \<and> up = connectUpstream (jsString protocol2 @ ''//'' @ jsString hostname2 @ portSuffix port2
                                @ jsString (path (urlParse env (url req)))) (rawHeaders req')
      \<and> (updateHostHeader fw = Unset \<or> updateHostHeader fw = Flag True \<longrightarrow>
           rawHeaderValue (rawHeaders req') (hostHeaderName req) = Some (jsString hostname2 @ portSuffix port2))
      \<and> (\<forall>s. updateHostHeader fw = Custom s \<and> s \<noteq> [] \<longrightarrow>
           rawHeaderValue (rawHeaders req') (hostHeaderName req) = Some s)
      \<and> (updateHostHeader fw = Flag False \<or> updateHostHeader fw = Custom [] \<longrightarrow>
           (case findRawHeader (rawHeaders req) (hostHeaderName req) of
              Some i \<Rightarrow> rawHeaders req' = rawHeaders req
            | None \<Rightarrow> rawHeaders req' = (hostHeaderName req, jsString hostname2) # rawHeaders req))
      \<and> (findRawHeader (rawHeaders req) (hostHeaderName req) = None \<longrightarrow>
           (\<exists>v. rawHeaders req' = (hostHeaderName req, v) # rawHeaders req))
      \<and> (\<forall>i. findRawHeader (rawHeaders req) (hostHeaderName req) = Some i \<longrightarrow>
           (\<exists>v. rawHeaders req' = (rawHeaders req)[i := (fst (rawHeaders req ! i), v)])))
     \<and> (CHR ''/'' \<notin> set (targetHost fw) \<longrightarrow>
          protocol2 = protocol (urlParse env (url req))
          \<and> hostname2 = Some (takeWhile (\<lambda>c. c \<noteq> CHR '':'') (targetHost fw))
          \<and> port2 = (if CHR '':'' \<in> set (targetHost fw)
                      then Some (takeWhile (\<lambda>c. c \<noteq> CHR '':'')
                                   (tl (dropWhile (\<lambda>c. c \<noteq> CHR '':'') (targetHost fw))))
                      else None))
     \<and> (CHR ''/'' \<in> set (targetHost fw) \<longrightarrow>
          protocol2 = protocol (urlParse env (targetHost fw))
          \<and> hostname2 = hostname (urlParse env (targetHost fw))
          \<and> port2 = port (urlParse env (targetHost fw)))"
proof -
  define hs2 where "hs2 = updateHostHeaderIn (updateHostHeader fw) (hostHeaderName req) hostname2 port2 (rawHeaders req)"
  define req' where "req' = req\<lparr>rawHeaders := hs2\<rparr>"
  define up where "up = connectUpstream (jsString protocol2 @ ''//'' @ jsString hostname2 @ portSuffix port2
                                @ jsString (path (urlParse env (url req)))) hs2"
  have h: "passThroughHandle env (Some fw) req socket = Inr (req', up)"
    using handle_forwarding [OF assms, of socket] by (simp add: hs2_def req'_def up_def)
  have r: "rawHeaders req' = hs2" by (simp add: req'_def)
  have 1: "updateHostHeader fw = Unset \<or> updateHostHeader fw = Flag True \<longrightarrow>
           rawHeaderValue (rawHeaders req') (hostHeaderName req) = Some (jsString hostname2 @ portSuffix port2)"
    unfolding r
  proof (cases "findRawHeader (rawHeaders req) (hostHeaderName req)")
    case None
    then show "updateHostHeader fw = Unset \<or> updateHostHeader fw = Flag True \<longrightarrow>
           rawHeaderValue hs2 (hostHeaderName req) = Some (jsString hostname2 @ portSuffix port2)"
      using update_missing [OF None, of "updateHostHeader fw" hostname2 port2]
      by (auto simp add: hs2_def rawHeaderValue_inserted)
  next
    case (Some i)
    then show "updateHostHeader fw = Unset \<or> updateHostHeader fw = Flag True \<longrightarrow>
           rawHeaderValue hs2 (hostHeaderName req) = Some (jsString hostname2 @ portSuffix port2)"
      using update_found [OF Some, of "updateHostHeader fw" hostname2 port2]
      by (auto simp add: hs2_def rawHeaderValue_update)
  qed
  have 2: "\<forall>s. updateHostHeader fw = Custom s \<and> s \<noteq> [] \<longrightarrow>
           rawHeaderValue (rawHeaders req') (hostHeaderName req) = Some s"
    unfolding r
  proof (cases "findRawHeader (rawHeaders req) (hostHeaderName req)")
    case None
    then show "\<forall>s. updateHostHeader fw = Custom s \<and> s \<noteq> [] \<longrightarrow>
           rawHeaderValue hs2 (hostHeaderName req) = Some s"
      using update_missing [OF None, of "updateHostHeader fw" hostname2 port2]
      by (auto simp add: hs2_def rawHeaderValue_inserted)
  next
    case (Some i)
    then show "\<forall>s. updateHostHeader fw = Custom s \<and> s \<noteq> [] \<longrightarrow>
           rawHeaderValue hs2 (hostHeaderName req) = Some s"
      using update_found [OF Some, of "updateHostHeader fw" hostname2 port2]
      by (auto simp add: hs2_def rawHeaderValue_update)
  qed
  have 3: "updateHostHeader fw = Flag False \<or> updateHostHeader fw = Custom [] \<longrightarrow>
           (case findRawHeader (rawHeaders req) (hostHeaderName req) of
              Some i \<Rightarrow> rawHeaders req' = rawHeaders req
            | None \<Rightarrow> rawHeaders req' = (hostHeaderName req, jsString hostname2) # rawHeaders req)"
    unfolding r
  proof (cases "findRawHeader (rawHeaders req) (hostHeaderName req)")
    case None
    then show "updateHostHeader fw = Flag False \<or> updateHostHeader fw = Custom [] \<longrightarrow>
           (case findRawHeader (rawHeaders req) (hostHeaderName req) of
              Some i \<Rightarrow> hs2 = rawHeaders req
            | None \<Rightarrow> hs2 = (hostHeaderName req, jsString hostname2) # rawHeaders req)"
      using update_missing [OF None, of "updateHostHeader fw" hostname2 port2]
      by (auto simp add: hs2_def)
  next
    case (Some i)
    then show "updateHostHeader fw = Flag False \<or> updateHostHeader fw = Custom [] \<longrightarrow>
           (case findRawHeader (rawHeaders req) (hostHeaderName req) of
              Some i \<Rightarrow> hs2 = rawHeaders req
            | None \<Rightarrow> hs2 = (hostHeaderName req, jsString hostname2) # rawHeaders req)"
      using update_found [OF Some, of "updateHostHeader fw" hostname2 port2]
      by (auto simp add: hs2_def)
  qed
  have 4: "findRawHeader (rawHeaders req) (hostHeaderName req) = None \<longrightarrow>
           (\<exists>v. rawHeaders req' = (hostHeaderName req, v) # rawHeaders req)"
    using update_shape_missing [of "rawHeaders req" req "updateHostHeader fw" hostname2 port2]
    by (simp add: r hs2_def)
  have 5: "\<forall>i. findRawHeader (rawHeaders req) (hostHeaderName req) = Some i \<longrightarrow>
           (\<exists>v. rawHeaders req' = (rawHeaders req)[i := (fst (rawHeaders req ! i), v)])"
    using update_shape_found [of "rawHeaders req" req _ "updateHostHeader fw" hostname2 port2]
    by (simp add: r hs2_def)
  have u: "up = connectUpstream (jsString protocol2 @ ''//'' @ jsString hostname2 @ portSuffix port2
                                @ jsString (path (urlParse env (url req)))) (rawHeaders req')"
    by (simp add: up_def r)
  have 6: "CHR ''/'' \<notin> set (targetHost fw) \<longrightarrow>
          protocol2 = protocol (urlParse env (url req))
          \<and> hostname2 = Some (takeWhile (\<lambda>c. c \<noteq> CHR '':'') (targetHost fw))
          \<and> port2 = (if CHR '':'' \<in> set (targetHost fw)
                      then Some (takeWhile (\<lambda>c. c \<noteq> CHR '':'')
                                   (tl (dropWhile (\<lambda>c. c \<noteq> CHR '':'') (targetHost fw))))
                      else None)"
    using assms forwardTarget_bare [of fw env req] by simp
  have 7: "CHR ''/'' \<in> set (targetHost fw) \<longrightarrow>
          protocol2 = protocol (urlParse env (targetHost fw))
          \<and> hostname2 = hostname (urlParse env (targetHost fw))
          \<and> port2 = port (urlParse env (targetHost fw))"
    using assms forwardTarget_url [of fw env req] by simp
  show ?thesis
    by (intro conjI, rule exI [of _ req'], rule exI [of _ up], intro conjI)
       (fact h, fact u, fact 1, fact 2, fact 3, fact 4, fact 5, fact 6, fact 7)
qed

theorem forwarding_host_header_witness:
  "\<exists>req' up. passThroughHandle scenarioEnv
        (Some \<lparr>targetHost = ''example.com:8080'', updateHostHeader = Unset\<rparr>) chatRequest plainSocket
        = Inr (req', up)
     \<and> upstreamUrl up = ''ws://example.com:8080/chat?x=1''
     \<and> rawHeaderValue (rawHeaders req') ''host'' = Some ''example.com:8080''"
proof -
  have t: "forwardTarget scenarioEnv \<lparr>targetHost = ''example.com:8080'', updateHostHeader = Unset\<rparr> chatRequest
      = (Some ''ws:'', Some ''example.com'', Some ''8080'')"
    by (simp add: forwardTarget_def scenarioEnv_def chatRequest_def)
  from forwarding_host_header [OF t, of plainSocket, THEN conjunct1] obtain req' up where
    h: "passThroughHandle scenarioEnv
        (Some \<lparr>targetHost = ''example.com:8080'', updateHostHeader = Unset\<rparr>) chatRequest plainSocket
        = Inr (req', up)"
    and u: "up = connectUpstream (jsString (Some ''ws:'') @ ''//'' @ jsString (Some ''example.com'') @ portSuffix (Some ''8080'')
                                @ jsString (path (urlParse scenarioEnv (url chatRequest)))) (rawHeaders req')"
    and v: "rawHeaderValue (rawHeaders req') (hostHeaderName chatRequest) = Some (jsString (Some ''example.com'') @ portSuffix (Some ''8080''))"
    by auto
  have "upstreamUrl up = ''ws://example.com:8080/chat?x=1''"
    by (subst u) (simp add: connectUpstream_def jsString_def portSuffix_def truthy_def scenarioEnv_def chatRequest_def)
  moreover have "rawHeaderValue (rawHeaders req') ''host'' = Some ''example.com:8080''"
    using v by (simp add: hostHeaderName_def chatRequest_def jsString_def portSuffix_def truthy_def)
  ultimately show ?thesis using h by blast
qed


lemma forwarding_url:
  assumes "forwardTarget env fw req = (protocol2, hostname2, port2)"
  shows "map_sum id (upstreamUrl \<circ> snd) (passThroughHandle env (Some fw) req socket)
     = Inr (jsString protocol2 @ ''//'' @ jsString hostname2 @ portSuffix port2
            @ jsString (path (urlParse env (url req))))"
  by (simp add: handle_forwarding [OF assms] connectUpstream_url)

lemma forwarding_url_bare:
  assumes "CHR ''/'' \<notin> set (targetHost fw)"
  shows "map_sum id (upstreamUrl \<circ> snd) (passThroughHandle env (Some fw) req socket)
     = Inr ((case protocol (urlParse env (url req)) of None \<Rightarrow> ''null'' | Some p \<Rightarrow> p)
            @ ''//''
            @ takeWhile (\<lambda>c. c \<noteq> CHR '':'') (targetHost fw)
            @ (if CHR '':'' \<in> set (targetHost fw)
                  \<and> takeWhile (\<lambda>c. c \<noteq> CHR '':'')
                        (tl (dropWhile (\<lambda>c. c \<noteq> CHR '':'') (targetHost fw))) \<noteq> []
               then '':'' @ takeWhile (\<lambda>c. c \<noteq> CHR '':'')
                              (tl (dropWhile (\<lambda>c. c \<noteq> CHR '':'') (targetHost fw)))
               else [])
            @ (case path (urlParse env (url req)) of None \<Rightarrow> ''null'' | Some p \<Rightarrow> p))"
  using forwarding_url [OF forwardTarget_bare [OF assms], where socket = socket]
  by (simp add: jsString_def portSuffix_def truthy_def split: option.splits)

lemma forwarding_url_full:
  assumes "CHR ''/'' \<in> set (targetHost fw)"
  shows "map_sum id (upstreamUrl \<circ> snd) (passThroughHandle env (Some fw) req socket)
     = Inr ((case protocol (urlParse env (targetHost fw)) of None \<Rightarrow> ''null'' | Some p \<Rightarrow> p)
            @ ''//''
            @ (case hostname (urlParse env (targetHost fw)) of None \<Rightarrow> ''null'' | Some h \<Rightarrow> h)
            @ (case port (urlParse env (targetHost fw)) of
                 None \<Rightarrow> [] | Some p \<Rightarrow> if p = [] then [] else '':'' @ p)
            @ (case path (urlParse env (url req)) of None \<Rightarrow> ''null'' | Some p \<Rightarrow> p))"
  using forwarding_url [OF forwardTarget_url [OF assms], where socket = socket]
  by (simp add: jsString_def portSuffix_def truthy_def split: option.splits)

text \<open>
  C7, as the claim states it, fails: with forwarding configured the hostname of the
  upstream is the forwarding target, not the remote address, although the request's
  hostname is a loopback name and the remote address is present and not loopback.
\<close>

theorem forwarding_overrides_remote_counterexample:
  "isLocalhostAddress scenarioEnv (hostname (urlParse scenarioEnv (url localhostRequest)))
   \<and> remoteIpAddress localhostRequest = Some ''10.0.0.5''
   \<and> \<not> isLocalhostAddress scenarioEnv (Some ''10.0.0.5'')
   \<and> map_sum id (upstreamUrl \<circ> snd)
       (passThroughHandle scenarioEnv (Some \<lparr>targetHost = ''example.com:8080'', updateHostHeader = Flag False\<rparr>)
          localhostRequest plainSocket)
     = Inr ''ws://example.com:8080/x''"
  by (simp add: passThroughHandle_def forwardTarget_def scenarioEnv_def localhostRequest_def
       connectUpstream_def jsString_def portSuffix_def truthy_def Let_def)


text \<open>
  C7, amended: for a pass-through request without forwarding whose parsed hostname is a
  loopback address and whose remote address is present and not a loopback address, the
  hostname of the upstream URL is the remote address, and the request's raw headers, the
  Host header among them, are passed on unchanged. With forwarding, the hostname of the
  upstream URL is that of the forwarding target instead: the text of \<open>targetHost\<close> before
  its first colon when \<open>targetHost\<close> has no \<open>/\<close>, the hostname of the parsed
  \<open>targetHost\<close> otherwise; the remote address is not in the URL. And the raw headers
  passed on are the same as for the request without a remote address: the substitution
  does not reach the Host header.
\<close>

theorem localhost_remote_rewrite:
  assumes "isLocalhostAddress env (hostname (urlParse env (url req)))"
    and "remoteIpAddress req = Some remote" and "remote \<noteq> []"
    and "\<not> isLocalhostAddress env (Some remote)"
  shows "(\<forall>protocol1. protocol (urlParse env (url req)) = Some protocol1 \<longrightarrow>
            passThroughHandle env None req socket =
              Inr (req, connectUpstream
                          (replaceFirst ''http'' ''ws'' protocol1 @ ''//'' @ remote
                             @ portSuffix (port (urlParse env (url req)))
                             @ jsString (path (urlParse env (url req))))
                          (rawHeaders req)))
     \<and> map_sum id (rawHeaders \<circ> fst) (passThroughHandle env (Some fw) req socket)
       = map_sum id (rawHeaders \<circ> fst)
           (passThroughHandle env (Some fw) (req\<lparr>remoteIpAddress := None\<rparr>) socket)
     \<and> (CHR ''/'' \<notin> set (targetHost fw) \<longrightarrow>
          map_sum id (upstreamUrl \<circ> snd) (passThroughHandle env (Some fw) req socket)
          = Inr ((case protocol (urlParse env (url req)) of None \<Rightarrow> ''null'' | Some p \<Rightarrow> p)
                 @ ''//''
                 @ takeWhile (\<lambda>c. c \<noteq> CHR '':'') (targetHost fw)
                 @ (if CHR '':'' \<in> set (targetHost fw)
                       \<and> takeWhile (\<lambda>c. c \<noteq> CHR '':'')
                             (tl (dropWhile (\<lambda>c. c \<noteq> CHR '':'') (targetHost fw))) \<noteq> []
                    then '':'' @ takeWhile (\<lambda>c. c \<noteq> CHR '':'')
                                   (tl (dropWhile (\<lambda>c. c \<noteq> CHR '':'') (targetHost fw)))
                    else [])
                 @ (case path (urlParse env (url req)) of None \<Rightarrow> ''null'' | Some p \<Rightarrow> p)))
     \<and> (CHR ''/'' \<in> set (targetHost fw) \<longrightarrow>
          map_sum id (upstreamUrl \<circ> snd) (passThroughHandle env (Some fw) req socket)
          = Inr ((case protocol (urlParse env (targetHost fw)) of
                    None \<Rightarrow> ''null'' | Some p \<Rightarrow> p)
                 @ ''//''
                 @ (case hostname (urlParse env (targetHost fw)) of
                      None \<Rightarrow> ''null'' | Some h \<Rightarrow> h)
                 @ (case port (urlParse env (targetHost fw)) of
                      None \<Rightarrow> [] | Some p \<Rightarrow> if p = [] then [] else '':'' @ p)
                 @ (case path (urlParse env (url req)) of None \<Rightarrow> ''null'' | Some p \<Rightarrow> p)))"
proof -
  have l: "localhostRewrite env req = Some remote"
    using assms by (simp add: localhostRewrite_def truthy_def)
  have 1: "\<forall>protocol1. protocol (urlParse env (url req)) = Some protocol1 \<longrightarrow>
            passThroughHandle env None req socket =
              Inr (req, connectUpstream
                          (replaceFirst ''http'' ''ws'' protocol1 @ ''//'' @ remote
                             @ portSuffix (port (urlParse env (url req)))
                             @ jsString (path (urlParse env (url req))))
                          (rawHeaders req))"
    using l assms(3) by (simp add: passThroughHandle_def Let_def truthy_def jsString_def)
  obtain protocol2 hostname2 port2 where t: "forwardTarget env fw req = (protocol2, hostname2, port2)"
    by (cases "forwardTarget env fw req")
  then have t': "forwardTarget env fw (req\<lparr>remoteIpAddress := None\<rparr>) = (protocol2, hostname2, port2)"
    by (simp add: forwardTarget_remote)
  have 2: "map_sum id (rawHeaders \<circ> fst) (passThroughHandle env (Some fw) req socket)
       = map_sum id (rawHeaders \<circ> fst)
           (passThroughHandle env (Some fw) (req\<lparr>remoteIpAddress := None\<rparr>) socket)"
    by (simp add: handle_forwarding [OF t] handle_forwarding [OF t'] hostHeaderName_def)
  from 1 2 forwarding_url_bare [of fw env req socket] forwarding_url_full [of fw env req socket]
  show ?thesis by blast
qed


theorem localhost_remote_rewrite_witness:
  "passThroughHandle scenarioEnv None localhostRequest plainSocket
     = Inr (localhostRequest, connectUpstream ''ws://10.0.0.5/x'' (rawHeaders localhostRequest))
   \<and> rawHeaderValue (rawHeaders localhostRequest) ''host'' = Some ''localhost''
   \<and> map_sum id (upstreamUrl \<circ> snd)
       (passThroughHandle scenarioEnv
          (Some \<lparr>targetHost = ''10.1.1.1:9000'', updateHostHeader = Flag False\<rparr>)
          localhostRequest plainSocket)
     = Inr ''ws://10.1.1.1:9000/x''"
proof -
  have a: "isLocalhostAddress scenarioEnv (hostname (urlParse scenarioEnv (url localhostRequest)))"
    by (simp add: scenarioEnv_def localhostRequest_def)
  have b: "remoteIpAddress localhostRequest = Some ''10.0.0.5''"
    by (simp add: localhostRequest_def)
  have c: "''10.0.0.5'' \<noteq> []" by simp
  have d: "\<not> isLocalhostAddress scenarioEnv (Some ''10.0.0.5'')"
    by (simp add: scenarioEnv_def)
  have p: "protocol (urlParse scenarioEnv (url localhostRequest)) = Some ''ws:''"
    by (simp add: scenarioEnv_def localhostRequest_def)
  note t = localhost_remote_rewrite [OF a b c d,
             where socket = plainSocket
               and fw = "\<lparr>targetHost = ''10.1.1.1:9000'', updateHostHeader = Flag False\<rparr>"]
  from t [THEN conjunct1] p
  have 1: "passThroughHandle scenarioEnv None localhostRequest plainSocket =
              Inr (localhostRequest, connectUpstream
                          (replaceFirst ''http'' ''ws'' ''ws:'' @ ''//'' @ ''10.0.0.5''
                             @ portSuffix (port (urlParse scenarioEnv (url localhostRequest)))
                             @ jsString (path (urlParse scenarioEnv (url localhostRequest))))
                          (rawHeaders localhostRequest))"
    by blast
  have "CHR ''/'' \<notin> set (targetHost \<lparr>targetHost = ''10.1.1.1:9000'', updateHostHeader = Flag False\<rparr>)"
    by simp
  with t [THEN conjunct2, THEN conjunct2, THEN conjunct1]
  have 2: "map_sum id (upstreamUrl \<circ> snd)
       (passThroughHandle scenarioEnv
          (Some \<lparr>targetHost = ''10.1.1.1:9000'', updateHostHeader = Flag False\<rparr>)
          localhostRequest plainSocket)
     = Inr ''ws://10.1.1.1:9000/x''"
    by (simp add: scenarioEnv_def localhostRequest_def)
  from 1 2 show ?thesis
    by (simp add: scenarioEnv_def localhostRequest_def startsWith_def portSuffix_def truthy_def
        jsString_def rawHeaderValue_def toLowerCase_def lowerChar_def)
qed

end
